theory Spec2Isabelle
  imports Complex_Main "HOL-Library.AList"
begin

section \<open>Domain model\<close>

text \<open>
  The endpoints import their document types from the module \<open>app.domain\<close>, which is not
  part of the sources at hand. The types below are modelled from the spec's data model
  (section 3) and from the fields the endpoints read and write. Object ids are natural
  numbers, a \<open>datetime\<close> is a number of microseconds since the epoch (Python's resolution),
  a \<open>timedelta\<close> a number of microseconds, and a calendar date a number of days.
  The documents of the collections that the endpoints write themselves are records of
  validated fields; the documents of \<open>service_status_history\<close>, which no endpoint at hand
  writes, keep whatever they hold under \<open>status\<close>.
\<close>

type_synonym PyObjectId = nat
type_synonym datetime = int
type_synonym timedelta = int
type_synonym caldate = int

datatype ServiceStatusEnum =
  OPERATIONAL | MAINTENANCE | DEGRADED_PERFORMANCE | MINOR_OUTAGE | PARTIAL_OUTAGE | MAJOR_OUTAGE

datatype UserRoleEnum = OWNER | ADMIN | MEMBER | VIEWER

datatype HTTPException = HTTPException nat

datatype py_exception = KeyError | ValueError

text \<open>
  What a document of the collection \<open>service_status_history\<close> holds under its key
  \<open>status\<close>: a value of the enum, or something \<open>ServiceStatusEnum(...)\<close> rejects.
  A document without the key has \<open>None\<close> in the field \<open>doc_status\<close>.
\<close>

datatype raw_status = Known ServiceStatusEnum | Unknown

record status_doc =
  doc_service_id :: PyObjectId
  doc_status :: "raw_status option"
  doc_timestamp :: datetime

record OrganizationMember =
  user_id :: PyObjectId
  role :: UserRoleEnum

type_synonym TeamMember = OrganizationMember

record User =
  usr_id :: PyObjectId
  usr_auth0_id :: string
  usr_email :: string
  usr_name :: "string option"
  usr_picture :: "string option"
  usr_created_at :: datetime
  usr_updated_at :: datetime

record Organization =
  org_id :: PyObjectId
  org_name :: string
  org_slug :: string
  org_logo_url :: "string option"
  org_owner_id :: PyObjectId
  org_members :: "OrganizationMember list"
  org_created_at :: datetime
  org_updated_at :: datetime

record Team =
  team_id :: PyObjectId
  team_organization_id :: PyObjectId
  team_name :: string
  team_description :: "string option"
  team_members :: "TeamMember list"
  team_created_at :: datetime
  team_updated_at :: datetime

record ServiceStatusHistory =
  old_status :: "ServiceStatusEnum option"
  new_status :: ServiceStatusEnum
  timestamp :: datetime

record Service =
  svc_id :: PyObjectId
  svc_organization_id :: PyObjectId
  svc_name :: string
  svc_status :: ServiceStatusEnum
  svc_status_history :: "ServiceStatusHistory list"
  svc_created_at :: datetime
  svc_updated_at :: datetime

record Subscriber =
  sub_email :: string
  sub_organization_id :: PyObjectId

text \<open>
  The document store: one list of documents per collection, in insertion order, and the
  next object id \<open>insert_one\<close> hands out.
\<close>

record Database =
  users :: "User list"
  organizations :: "Organization list"
  teams :: "Team list"
  services :: "Service list"
  subscribers :: "Subscriber list"
  service_status_history :: "status_doc list"
  next_id :: PyObjectId

section \<open>Uptime calculation (public.py, get_service_uptime)\<close>

definition days :: "int \<Rightarrow> timedelta" where
  "days n = n * 86400000000"

definition date_of :: "datetime \<Rightarrow> caldate" where
  "date_of t = t div 86400000000"

definition total_seconds :: "timedelta \<Rightarrow> real" where
  "total_seconds d = real_of_int d / 1000000"

text \<open>
  Python's \<open>round(x, 4)\<close>, on exact reals: the nearest multiple of \<open>10\<^sup>-\<^sup>4\<close>, a tie going to
  the even one. The percentage is a float in the source; the model computes with exact
  real arithmetic.
\<close>

definition round_half_even :: "real \<Rightarrow> int" where
  "round_half_even y =
     (let f = \<lfloor>y\<rfloor>; d = y - real_of_int f
      in if d < 1 / 2 then f else if 1 / 2 < d then f + 1 else if even f then f else f + 1)"

definition py_round4 :: "real \<Rightarrow> real" where
  "py_round4 x = real_of_int (round_half_even (x * 10000)) / 10000"

definition up_states :: "ServiceStatusEnum set" where
  "up_states = {OPERATIONAL, DEGRADED_PERFORMANCE}"

definition excluded_states :: "ServiceStatusEnum set" where
  "excluded_states = {MAINTENANCE}"

fun severity_map :: "ServiceStatusEnum \<Rightarrow> nat" where
  "severity_map MAJOR_OUTAGE = 5"
| "severity_map PARTIAL_OUTAGE = 4"
| "severity_map MINOR_OUTAGE = 3"
| "severity_map DEGRADED_PERFORMANCE = 2"
| "severity_map MAINTENANCE = 1"
| "severity_map OPERATIONAL = 0"

text \<open>\<open>ServiceStatusEnum(x)\<close>: the member with that value, or \<open>ValueError\<close>.\<close>

fun ServiceStatusEnum_of :: "raw_status \<Rightarrow> py_exception + ServiceStatusEnum" where
  "ServiceStatusEnum_of (Known s) = Inr s"
| "ServiceStatusEnum_of Unknown = Inl ValueError"

text \<open>
  Lines 193-196: \<open>ServiceStatusEnum(start_event.get('status'))\<close> inside
  \<open>try ... except (ValueError, TypeError)\<close>. A missing key gives \<open>None\<close>, which the enum
  rejects as well, so both cases end in \<open>OPERATIONAL\<close>.
\<close>

definition status_or_operational :: "raw_status option \<Rightarrow> ServiceStatusEnum" where
  "status_or_operational r =
     (case r of
        None \<Rightarrow> OPERATIONAL
      | Some raw \<Rightarrow> (case ServiceStatusEnum_of raw of Inl _ \<Rightarrow> OPERATIONAL | Inr s \<Rightarrow> s))"

text \<open>
  Lines 188-201: one pass of \<open>for i in range(len(events) - 1)\<close>, on the pair of
  accumulators \<open>(up_duration, total_duration)\<close>.
\<close>

definition uptime_step ::
  "status_doc list \<Rightarrow> nat \<Rightarrow> timedelta \<times> timedelta \<Rightarrow> timedelta \<times> timedelta" where
  "uptime_step events i acc =
     (case acc of (up_duration, total_duration) \<Rightarrow>
        let start_event = events ! i;
            end_event = events ! (i + 1);
            duration = doc_timestamp end_event - doc_timestamp start_event;
            status = status_or_operational (doc_status start_event)
        in if status \<notin> excluded_states
           then (if status \<in> up_states then up_duration + duration else up_duration,
                 total_duration + duration)
           else (up_duration, total_duration))"

definition uptime_loop :: "status_doc list \<Rightarrow> timedelta \<times> timedelta" where
  "uptime_loop events = fold (uptime_step events) [0..<length events - 1] (0, 0)"

text \<open>
  Lines 233-243: the scan of \<open>sorted_events\<close> for one day. \<open>event['status']\<close> raises
  \<open>KeyError\<close> on a document without the key, which the \<open>except\<close> clause of line 237 does
  not catch.
\<close>

fun worst_scan ::
  "datetime \<Rightarrow> status_doc list \<Rightarrow> ServiceStatusEnum \<times> nat \<Rightarrow>
   py_exception + (ServiceStatusEnum \<times> nat)" where
  "worst_scan day_end [] acc = Inr acc"
| "worst_scan day_end (event # rest) (day_worst_status, day_worst_severity) =
     (if doc_timestamp event < day_end
      then (case doc_status event of
              None \<Rightarrow> Inl KeyError
            | Some raw \<Rightarrow>
                let event_status =
                      (case ServiceStatusEnum_of raw of Inl _ \<Rightarrow> OPERATIONAL | Inr s \<Rightarrow> s);
                    event_severity = severity_map event_status
                in if event_severity > day_worst_severity
                   then worst_scan day_end rest (event_status, event_severity)
                   else worst_scan day_end rest (day_worst_status, day_worst_severity))
      else worst_scan day_end rest (day_worst_status, day_worst_severity))"

text \<open>
  Lines 228-244: the loop over the day starts. \<open>day_map\<close> is a Python dict from dates
  to a dict of which only the entry \<open>status\<close> is read afterwards; it is an association
  list here, and \<open>AList.update\<close> overwrites an existing key in place and appends a new
  one, as assignment to a dict does.
\<close>

fun daily_loop ::
  "status_doc list \<Rightarrow> datetime list \<Rightarrow> (caldate \<times> ServiceStatusEnum) list \<Rightarrow>
   py_exception + (caldate \<times> ServiceStatusEnum) list" where
  "daily_loop sorted_events [] day_map = Inr day_map"
| "daily_loop sorted_events (day_start # rest) day_map =
     (let day_end = day_start + days 1
      in case worst_scan day_end sorted_events (OPERATIONAL, 0) of
           Inl e \<Rightarrow> Inl e
         | Inr (day_worst_status, day_worst_severity) \<Rightarrow>
             daily_loop sorted_events rest
               (AList.update (date_of day_start) day_worst_status day_map))"

text \<open>Lines 222-224: the first fill of \<open>day_map\<close>, for \<open>i\<close> in \<open>range(90)\<close>.\<close>

definition initial_day_map ::
  "datetime \<Rightarrow> ServiceStatusEnum \<Rightarrow> (caldate \<times> ServiceStatusEnum) list" where
  "initial_day_map end_date initial_status_for_daily =
     fold (\<lambda>i day_map.
             AList.update (date_of (end_date - days (int i))) initial_status_for_daily day_map)
       [0..<90] []"

record DailyUptimeStatus =
  date :: caldate
  status :: ServiceStatusEnum

record ServiceUptime =
  overall_uptime_percentage :: real
  daily_statuses :: "DailyUptimeStatus list"

text \<open>
  Lines 168-180: the list \<open>events\<close>. \<open>initial_status_doc\<close> is the result of the second
  query (at most one document), \<open>history\<close> that of the first. \<open>events[-1]['status']\<close>
  raises \<open>KeyError\<close> when the last document has no such key.
\<close>

definition build_events ::
  "Service \<Rightarrow> status_doc list \<Rightarrow> status_doc list \<Rightarrow> datetime \<Rightarrow> datetime \<Rightarrow>
   py_exception + status_doc list" where
  "build_events service_doc initial_status_doc history start_date end_date =
     (let events = (if initial_status_doc \<noteq> [] then [hd initial_status_doc] else []) @ history;
          events = (if events = []
                    then [\<lparr>doc_service_id = svc_id service_doc,
                           doc_status = Some (Known (svc_status service_doc)),
                           doc_timestamp = start_date\<rparr>]
                    else events)
      in case doc_status (last events) of
           None \<Rightarrow> Inl KeyError
         | Some last_event_status \<Rightarrow>
             Inr (events @ [\<lparr>doc_service_id = svc_id service_doc,
                             doc_status = Some last_event_status,
                             doc_timestamp = end_date\<rparr>]))"

text \<open>Lines 182-253, on the list \<open>events\<close> built before.\<close>

definition uptime_of_events ::
  "Service \<Rightarrow> status_doc list \<Rightarrow> datetime \<Rightarrow> datetime \<Rightarrow> py_exception + ServiceUptime" where
  "uptime_of_events service_doc events start_date end_date =
     (case uptime_loop events of (up_duration, total_duration) \<Rightarrow>
        let overall =
              (if total_seconds total_duration > 0
               then (total_seconds up_duration / total_seconds total_duration) * 100
               else if svc_status service_doc \<in> up_states then 100 else 0)
        in case doc_status (hd events) of
             None \<Rightarrow> Inl KeyError
           | Some raw \<Rightarrow>
               (case ServiceStatusEnum_of raw of
                  Inl e \<Rightarrow> Inl e
                | Inr initial_status_for_daily \<Rightarrow>
                    (case daily_loop (sort_key doc_timestamp events)
                            (map (\<lambda>n. start_date + days (int n)) [0..<90])
                            (initial_day_map end_date initial_status_for_daily) of
                       Inl e \<Rightarrow> Inl e
                     | Inr day_map \<Rightarrow>
                         Inr \<lparr>overall_uptime_percentage = py_round4 overall,
                              daily_statuses =
                                sort_key date
                                  (map (\<lambda>(d, s). \<lparr>date = d, status = s\<rparr>) day_map)\<rparr>)))"

text \<open>
  The two queries of lines 157-166 on the collection \<open>service_status_history\<close>:
  the documents of the service inside the window, oldest first, and the newest one
  before the window.
\<close>

definition find_history :: "Database \<Rightarrow> PyObjectId \<Rightarrow> datetime \<Rightarrow> datetime \<Rightarrow> status_doc list" where
  "find_history db service_obj_id start_date end_date =
     sort_key doc_timestamp
       (filter (\<lambda>d. doc_service_id d = service_obj_id
                  \<and> start_date \<le> doc_timestamp d \<and> doc_timestamp d \<le> end_date)
          (service_status_history db))"

definition find_initial_status_doc :: "Database \<Rightarrow> PyObjectId \<Rightarrow> datetime \<Rightarrow> status_doc list" where
  "find_initial_status_doc db service_obj_id start_date =
     take 1 (sort_key (\<lambda>d. - doc_timestamp d)
       (filter (\<lambda>d. doc_service_id d = service_obj_id \<and> doc_timestamp d < start_date)
          (service_status_history db)))"

text \<open>
  The endpoint. \<open>service_id\<close> is \<open>None\<close> when the path parameter is no valid object id
  (\<open>PyObjectId(service_id)\<close> raises), \<open>now\<close> is the value of \<open>datetime.utcnow()\<close>. The whole
  body is inside \<open>try ... except Exception\<close>, which turns every exception, the two
  404s raised inside it included, into a 500.
\<close>

definition get_service_uptime ::
  "Database \<Rightarrow> string \<Rightarrow> PyObjectId option \<Rightarrow> datetime \<Rightarrow> HTTPException + ServiceUptime" where
  "get_service_uptime db slug service_id now =
     (case service_id of
        None \<Rightarrow> Inl (HTTPException 500)
      | Some service_obj_id \<Rightarrow>
          (case find (\<lambda>org. org_slug org = slug) (organizations db) of
             None \<Rightarrow> Inl (HTTPException 500)
           | Some org_doc \<Rightarrow>
               (case find (\<lambda>s. svc_id s = service_obj_id \<and> svc_organization_id s = org_id org_doc)
                       (services db) of
                  None \<Rightarrow> Inl (HTTPException 500)
                | Some service_doc \<Rightarrow>
                    let end_date = now;
                        start_date = end_date - days 90;
                        history = find_history db service_obj_id start_date end_date;
                        initial_status_doc = find_initial_status_doc db service_obj_id start_date
                    in case build_events service_doc initial_status_doc history start_date end_date of
                         Inl e \<Rightarrow> Inl (HTTPException 500)
                       | Inr events \<Rightarrow>
                           (case uptime_of_events service_doc events start_date end_date of
                              Inl e \<Rightarrow> Inl (HTTPException 500)
                            | Inr uptime_data \<Rightarrow> Inr uptime_data))))"

section \<open>The document store and the authenticated principal\<close>

text \<open>
  The claims of the verified token, as the endpoints of organizations.py and teams.py
  receive them (\<open>TokenPayload\<close> of app.auth_utils).
\<close>

record TokenPayload =
  tok_sub :: "string option"
  tok_email :: "string option"
  tok_name :: "string option"
  tok_picture :: "string option"

text \<open>Python's truth value of an optional string: \<open>None\<close> and the empty string are false.\<close>

definition truthy :: "string option \<Rightarrow> bool" where
  "truthy s = (case s of None \<Rightarrow> False | Some v \<Rightarrow> v \<noteq> [])"

text \<open>
  \<open>update_one(filter, update)\<close>: the first document that matches the filter is replaced by
  its update. \<open>matched_count\<close> is 1 when a document matches; \<open>modified_count\<close> is 1 when
  the update changed it.
\<close>

fun update_one :: "('a \<Rightarrow> bool) \<Rightarrow> ('a \<Rightarrow> 'a) \<Rightarrow> 'a list \<Rightarrow> 'a list" where
  "update_one P f [] = []"
| "update_one P f (x # xs) = (if P x then f x # xs else x # update_one P f xs)"

definition matched_count :: "('a \<Rightarrow> bool) \<Rightarrow> 'a list \<Rightarrow> nat" where
  "matched_count P xs = (case find P xs of None \<Rightarrow> 0 | Some x \<Rightarrow> 1)"

definition modified_count :: "('a \<Rightarrow> bool) \<Rightarrow> ('a \<Rightarrow> 'a) \<Rightarrow> 'a list \<Rightarrow> nat" where
  "modified_count P f xs = (case find P xs of None \<Rightarrow> 0 | Some x \<Rightarrow> if f x = x then 0 else 1)"

text \<open>\<open>db.users.find_one({"auth0_id": payload.sub})\<close>; every stored user has a string there.\<close>

definition find_user_by_sub :: "Database \<Rightarrow> string option \<Rightarrow> User option" where
  "find_user_by_sub db sub =
     (case sub of None \<Rightarrow> None | Some s \<Rightarrow> find (\<lambda>u. usr_auth0_id u = s) (users db))"

section \<open>Organizations (organizations.py)\<close>

record OrganizationCreate =
  oc_name :: string
  oc_logo_url :: "string option"

record OrganizationUpdate =
  ou_name :: "string option"
  ou_logo_url :: "string option"


record PopulatedMember =
  pm_id :: PyObjectId
  pm_name :: "string option"
  pm_email :: string
  pm_picture :: "string option"
  pm_role :: UserRoleEnum

record OrganizationWithPopulatedMembers =
  owp_organization :: Organization
  owp_members :: "PopulatedMember list"

subsection \<open>Slugs\<close>

definition lower_char :: "char \<Rightarrow> char" where
  "lower_char c =
     (if 65 \<le> (of_char c :: nat) \<and> (of_char c :: nat) \<le> 90
      then char_of ((of_char c :: nat) + 32) else c)"

definition is_slug_char :: "char \<Rightarrow> bool" where
  "is_slug_char c =
     ((97 \<le> (of_char c :: nat) \<and> (of_char c :: nat) \<le> 122)
      \<or> (48 \<le> (of_char c :: nat) \<and> (of_char c :: nat) \<le> 57))"

text \<open>
  \<open>re.sub(r'[^a-z0-9]+', '-', s)\<close>: every maximal run of characters outside \<open>a-z0-9\<close>
  becomes one hyphen. The flag says whether the previous character belonged to such a run.
\<close>

fun sub_runs :: "bool \<Rightarrow> string \<Rightarrow> string" where
  "sub_runs in_run [] = []"
| "sub_runs in_run (c # cs) =
     (if is_slug_char c then c # sub_runs False cs
      else if in_run then sub_runs True cs
      else CHR ''-'' # sub_runs True cs)"

definition strip_hyphens :: "string \<Rightarrow> string" where
  "strip_hyphens s =
     rev (dropWhile (\<lambda>c. c = CHR ''-'') (rev (dropWhile (\<lambda>c. c = CHR ''-'') s)))"

definition slugify :: "string \<Rightarrow> string" where
  "slugify name = strip_hyphens (sub_runs False (map lower_char name))"

text \<open>The decimal digits of a number, as \<open>f"{counter}"\<close> prints them.\<close>

fun str_of_nat :: "nat \<Rightarrow> string" where
  "str_of_nat n =
     (if n < 10 then [char_of (48 + n)]
      else str_of_nat (n div 10) @ [char_of (48 + n mod 10)])"

declare str_of_nat.simps [simp del]

text \<open>
  Lines 31-35: \<open>while await db.organizations.find_one({"slug": slug})\<close>. The loop ends
  because the candidates are pairwise different and the collection is finite.
\<close>

function unique_slug :: "Organization list \<Rightarrow> string \<Rightarrow> string \<Rightarrow> nat \<Rightarrow> string" where
  "unique_slug orgs base_slug slug counter =
     (if find (\<lambda>org. org_slug org = slug) orgs \<noteq> None
      then unique_slug orgs base_slug (base_slug @ ''-'' @ str_of_nat counter) (counter + 1)
      else slug)"
  by pat_completeness auto

subsection \<open>create_organization\<close>

text \<open>
  Lines 49-61: the user exists; name, picture and email are refreshed from the token where
  the token has a value that differs from the stored one.
\<close>

definition refresh_user :: "Database \<Rightarrow> User \<Rightarrow> TokenPayload \<Rightarrow> datetime \<Rightarrow> Database" where
  "refresh_user db user_doc payload now =
     (let set_name = (truthy (tok_name payload) \<and> usr_name user_doc \<noteq> tok_name payload);
          set_picture = (truthy (tok_picture payload) \<and> usr_picture user_doc \<noteq> tok_picture payload);
          set_email = (truthy (tok_email payload) \<and> Some (usr_email user_doc) \<noteq> tok_email payload)
      in if set_name \<or> set_picture \<or> set_email
         then db\<lparr>users :=
                update_one (\<lambda>u. usr_id u = usr_id user_doc)
                  (\<lambda>u. u\<lparr>usr_name := (if set_name then tok_name payload else usr_name u),
                         usr_picture := (if set_picture then tok_picture payload else usr_picture u),
                         usr_email := (if set_email
                                       then (case tok_email payload of
                                               Some e \<Rightarrow> e | None \<Rightarrow> usr_email u)
                                       else usr_email u),
                         usr_updated_at := now\<rparr>)
                  (users db)\<rparr>
         else db)"

text \<open>
  Lines 79-89: the organization document is inserted with the creator as owner and as its
  only member, with role \<open>ADMIN\<close>, and read back by its new id.
\<close>

definition insert_organization ::
  "Database \<Rightarrow> OrganizationCreate \<Rightarrow> string \<Rightarrow> PyObjectId \<Rightarrow> datetime \<Rightarrow>
   (HTTPException + Organization) \<times> Database" where
  "insert_organization db org_in slug current_user_id now =
     (let owner_member = \<lparr>user_id = current_user_id, role = ADMIN\<rparr>;
          org_dict = \<lparr>org_id = next_id db, org_name = oc_name org_in, org_slug = slug,
                      org_logo_url = oc_logo_url org_in, org_owner_id = current_user_id,
                      org_members = [owner_member],
                      org_created_at = now, org_updated_at = now\<rparr>;
          db' = db\<lparr>organizations := organizations db @ [org_dict], next_id := next_id db + 1\<rparr>
      in (case find (\<lambda>org. org_id org = next_id db) (organizations db') of
            Some created_org_doc \<Rightarrow> (Inr created_org_doc, db')
          | None \<Rightarrow> (Inl (HTTPException 500), db')))"

text \<open>
  The endpoint. \<open>user_validates\<close> stands for the validation that \<open>User(**new_user_data)\<close>
  performs on the claims of the token (the class is declared in app.domain); \<open>now\<close> is
  the value of \<open>datetime.utcnow()\<close>. The result is the response together with the store
  after the call.
\<close>

definition create_organization ::
  "(TokenPayload \<Rightarrow> bool) \<Rightarrow> Database \<Rightarrow> OrganizationCreate \<Rightarrow> TokenPayload \<Rightarrow> datetime \<Rightarrow>
   (HTTPException + Organization) \<times> Database" where
  "create_organization user_validates db org_in payload now =
     (let base_slug = slugify (oc_name org_in);
          slug = unique_slug (organizations db) base_slug base_slug 1
      in if \<not> truthy (tok_sub payload) \<or> \<not> truthy (tok_email payload)
         then (Inl (HTTPException 400), db)
         else (case find_user_by_sub db (tok_sub payload) of
                 Some user_doc \<Rightarrow>
                   insert_organization (refresh_user db user_doc payload now) org_in slug
                     (usr_id user_doc) now
               | None \<Rightarrow>
                   if \<not> user_validates payload then (Inl (HTTPException 400), db)
                   else (case (tok_sub payload, tok_email payload) of
                           (Some sub, Some email) \<Rightarrow>
                             insert_organization
                               (db\<lparr>users := users db @
                                      [\<lparr>usr_id = next_id db, usr_auth0_id = sub, usr_email = email,
                                        usr_name = tok_name payload,
                                        usr_picture = tok_picture payload,
                                        usr_created_at = now, usr_updated_at = now\<rparr>],
                                    next_id := next_id db + 1\<rparr>)
                               org_in slug (next_id db) now
                         | _ \<Rightarrow> (Inl (HTTPException 400), db))))"

subsection \<open>get_organization\<close>

text \<open>
  Lines 152-171: the members whose user document exists, with the user's details; a
  member without one is left out of the response.
\<close>

definition populate_members :: "Database \<Rightarrow> OrganizationMember list \<Rightarrow> PopulatedMember list" where
  "populate_members db members =
     List.map_filter
       (\<lambda>member.
          case find (\<lambda>u. usr_id u = user_id member) (users db) of
            None \<Rightarrow> None
          | Some user_details \<Rightarrow>
              Some \<lparr>pm_id = usr_id user_details, pm_name = usr_name user_details,
                    pm_email = usr_email user_details, pm_picture = usr_picture user_details,
                    pm_role = role member\<rparr>)
       members"

definition get_organization ::
  "Database \<Rightarrow> PyObjectId \<Rightarrow> TokenPayload \<Rightarrow> HTTPException + OrganizationWithPopulatedMembers" where
  "get_organization db oid payload =
     (case find_user_by_sub db (tok_sub payload) of
        None \<Rightarrow> Inl (HTTPException 404)
      | Some requesting_user_doc \<Rightarrow>
          (case find (\<lambda>org. org_id org = oid
                        \<and> list_ex (\<lambda>m. user_id m = usr_id requesting_user_doc) (org_members org))
                  (organizations db) of
             None \<Rightarrow> Inl (HTTPException 404)
           | Some organization_doc \<Rightarrow>
               Inr \<lparr>owp_organization = organization_doc,
                    owp_members = populate_members db (org_members organization_doc)\<rparr>))"

subsection \<open>update_organization\<close>

definition update_organization ::
  "Database \<Rightarrow> PyObjectId \<Rightarrow> OrganizationUpdate \<Rightarrow> datetime \<Rightarrow>
   (HTTPException + Organization) \<times> Database" where
  "update_organization db oid org_in now =
     (if ou_name org_in = None \<and> ou_logo_url org_in = None
      then (Inl (HTTPException 400), db)
      else
        (let db' = db\<lparr>organizations :=
                      update_one (\<lambda>org. org_id org = oid)
                        (\<lambda>org. org\<lparr>org_name := (case ou_name org_in of
                                                     Some n \<Rightarrow> n | None \<Rightarrow> org_name org),
                                   org_logo_url := (case ou_logo_url org_in of
                                                      Some l \<Rightarrow> Some l | None \<Rightarrow> org_logo_url org),
                                   org_updated_at := now\<rparr>)
                        (organizations db)\<rparr>
         in if matched_count (\<lambda>org. org_id org = oid) (organizations db) = 0
            then (Inl (HTTPException 404), db')
            else (case find (\<lambda>org. org_id org = oid) (organizations db') of
                    None \<Rightarrow> (Inl (HTTPException 404), db')
                  | Some updated_org \<Rightarrow> (Inr updated_org, db'))))"

subsection \<open>add_organization_member\<close>

text \<open>Line 266: the permission check of \<open>add_organization_member\<close>.\<close>

definition can_add_members :: "Organization \<Rightarrow> PyObjectId \<Rightarrow> bool" where
  "can_add_members organization requesting_user_internal_id =
     list_ex (\<lambda>m. user_id m = requesting_user_internal_id \<and> role m \<in> set [ADMIN, OWNER])
       (org_members organization)"


subsection \<open>remove_organization_member\<close>

definition remove_organization_member ::
  "Database \<Rightarrow> PyObjectId \<Rightarrow> PyObjectId \<Rightarrow> TokenPayload \<Rightarrow>
   (HTTPException + OrganizationWithPopulatedMembers) \<times> Database" where
  "remove_organization_member db oid user_id_to_remove payload =
     (if \<not> truthy (tok_sub payload) then (Inl (HTTPException 400), db)
      else
        (case find_user_by_sub db (tok_sub payload) of
           None \<Rightarrow> (Inl (HTTPException 404), db)
         | Some requesting_user_doc \<Rightarrow>
             (case find (\<lambda>org. org_id org = oid) (organizations db) of
                None \<Rightarrow> (Inl (HTTPException 404), db)
              | Some organization \<Rightarrow>
                  (let requesting_user_internal_id = usr_id requesting_user_doc;
                       is_owner = (org_owner_id organization = requesting_user_internal_id);
                       is_admin = list_ex (\<lambda>m. user_id m = requesting_user_internal_id
                                              \<and> role m = ADMIN) (org_members organization)
                   in if \<not> (is_owner \<or> is_admin) then (Inl (HTTPException 403), db)
                      else if user_id_to_remove = org_owner_id organization
                      then (Inl (HTTPException 400), db)
                      else if \<not> is_owner \<and> user_id_to_remove = requesting_user_internal_id
                      then (Inl (HTTPException 400), db)
                      else
                        (let pull = (\<lambda>org. org\<lparr>org_members :=
                                       filter (\<lambda>m. user_id m \<noteq> user_id_to_remove)
                                         (org_members org)\<rparr>);
                             db' = db\<lparr>organizations :=
                                     update_one (\<lambda>org. org_id org = oid) pull (organizations db)\<rparr>
                         in if modified_count (\<lambda>org. org_id org = oid) pull (organizations db) = 0
                            then (Inl (HTTPException 404), db')
                            else (get_organization db' oid payload, db'))))))"

subsection \<open>update_organization_member_role\<close>

definition update_organization_member_role ::
  "Database \<Rightarrow> PyObjectId \<Rightarrow> PyObjectId \<Rightarrow> UserRoleEnum \<Rightarrow> TokenPayload \<Rightarrow> datetime \<Rightarrow>
   (HTTPException + OrganizationWithPopulatedMembers) \<times> Database" where
  "update_organization_member_role db oid user_id_to_update role_data payload now =
     (if \<not> truthy (tok_sub payload) then (Inl (HTTPException 400), db)
      else
        (case find_user_by_sub db (tok_sub payload) of
           None \<Rightarrow> (Inl (HTTPException 404), db)
         | Some requesting_user_doc \<Rightarrow>
             (case find (\<lambda>org. org_id org = oid) (organizations db) of
                None \<Rightarrow> (Inl (HTTPException 404), db)
              | Some organization \<Rightarrow>
                  (let requesting_user_internal_id = usr_id requesting_user_doc;
                       is_owner = (org_owner_id organization = requesting_user_internal_id);
                       is_admin = list_ex (\<lambda>m. user_id m = requesting_user_internal_id
                                              \<and> role m = ADMIN) (org_members organization)
                   in if \<not> (is_owner \<or> is_admin) then (Inl (HTTPException 403), db)
                      else if role_data = OWNER then (Inl (HTTPException 400), db)
                      else if user_id_to_update = org_owner_id organization
                      then (Inl (HTTPException 400), db)
                      else if \<not> is_owner \<and> user_id_to_update = requesting_user_internal_id
                      then (Inl (HTTPException 403), db)
                      else
                        (let matches = (\<lambda>org. org_id org = oid
                                          \<and> list_ex (\<lambda>m. user_id m = user_id_to_update)
                                               (org_members org));
                             db' = db\<lparr>organizations :=
                                     update_one matches
                                       (\<lambda>org. org\<lparr>org_members :=
                                                    update_one (\<lambda>m. user_id m = user_id_to_update)
                                                      (\<lambda>m. m\<lparr>role := role_data\<rparr>)
                                                      (org_members org),
                                                  org_updated_at := now\<rparr>)
                                       (organizations db)\<rparr>
                         in if matched_count matches (organizations db) = 0
                            then (Inl (HTTPException 404), db')
                            else (get_organization db' oid payload, db'))))))"

section \<open>Teams (teams.py)\<close>

record TeamUpdate =
  tu_name :: "string option"
  tu_description :: "string option"

record TeamMemberAdd =
  tma_user_id :: PyObjectId
  tma_role :: UserRoleEnum

subsection \<open>update_team\<close>

definition update_team ::
  "Database \<Rightarrow> PyObjectId \<Rightarrow> TeamUpdate \<Rightarrow> datetime \<Rightarrow> (HTTPException + Team) \<times> Database" where
  "update_team db tid team_in now =
     (if tu_name team_in = None \<and> tu_description team_in = None
      then (Inl (HTTPException 400), db)
      else
        (let db' = db\<lparr>teams :=
                      update_one (\<lambda>t. team_id t = tid)
                        (\<lambda>t. t\<lparr>team_name := (case tu_name team_in of
                                                  Some n \<Rightarrow> n | None \<Rightarrow> team_name t),
                               team_description := (case tu_description team_in of
                                                      Some d \<Rightarrow> Some d
                                                    | None \<Rightarrow> team_description t),
                               team_updated_at := now\<rparr>)
                        (teams db)\<rparr>
         in if matched_count (\<lambda>t. team_id t = tid) (teams db) = 0
            then (Inl (HTTPException 404), db')
            else (case find (\<lambda>t. team_id t = tid) (teams db') of
                    None \<Rightarrow> (Inl (HTTPException 500), db')
                  | Some updated_team_doc \<Rightarrow> (Inr updated_team_doc, db'))))"

subsection \<open>The permission predicates of the member endpoints\<close>

definition is_org_owner_or_admin :: "Organization \<Rightarrow> PyObjectId \<Rightarrow> bool" where
  "is_org_owner_or_admin organization requesting_user_internal_id =
     (org_owner_id organization = requesting_user_internal_id
      \<or> list_ex (\<lambda>m. user_id m = requesting_user_internal_id \<and> role m = ADMIN)
           (org_members organization))"

definition is_team_admin :: "Team \<Rightarrow> PyObjectId \<Rightarrow> bool" where
  "is_team_admin team requesting_user_internal_id =
     list_ex (\<lambda>m. user_id m = requesting_user_internal_id \<and> role m = ADMIN) (team_members team)"

subsection \<open>add_team_member\<close>

definition add_team_member ::
  "Database \<Rightarrow> PyObjectId \<Rightarrow> TeamMemberAdd \<Rightarrow> TokenPayload \<Rightarrow> datetime \<Rightarrow>
   (HTTPException + Team) \<times> Database" where
  "add_team_member db tid member_data payload now =
     (if \<not> truthy (tok_sub payload) then (Inl (HTTPException 400), db)
      else
        (case find_user_by_sub db (tok_sub payload) of
           None \<Rightarrow> (Inl (HTTPException 404), db)
         | Some requesting_user_doc \<Rightarrow>
             (case find (\<lambda>t. team_id t = tid) (teams db) of
                None \<Rightarrow> (Inl (HTTPException 404), db)
              | Some team \<Rightarrow>
                  (case find (\<lambda>org. org_id org = team_organization_id team) (organizations db) of
                     None \<Rightarrow> (Inl (HTTPException 404), db)
                   | Some organization \<Rightarrow>
                       if \<not> (is_org_owner_or_admin organization (usr_id requesting_user_doc)
                              \<or> is_team_admin team (usr_id requesting_user_doc))
                       then (Inl (HTTPException 403), db)
                       else
                         (case find (\<lambda>u. usr_id u = tma_user_id member_data) (users db) of
                            None \<Rightarrow> (Inl (HTTPException 404), db)
                          | Some user_to_add_doc \<Rightarrow>
                              if \<not> (org_owner_id organization = tma_user_id member_data
                                     \<or> list_ex (\<lambda>m. user_id m = tma_user_id member_data)
                                          (org_members organization))
                              then (Inl (HTTPException 400), db)
                              else if list_ex (\<lambda>m. user_id m = tma_user_id member_data)
                                        (team_members team)
                              then (Inl (HTTPException 409), db)
                              else
                                (let new_team_member = \<lparr>user_id = tma_user_id member_data,
                                                         role = tma_role member_data\<rparr>;
                                     push = (\<lambda>t. t\<lparr>team_members := team_members t @ [new_team_member],
                                                    team_updated_at := now\<rparr>);
                                     db' = db\<lparr>teams :=
                                             update_one (\<lambda>t. team_id t = tid) push (teams db)\<rparr>
                                 in if modified_count (\<lambda>t. team_id t = tid) push (teams db) = 0
                                    then (Inl (HTTPException 500), db')
                                    else (case find (\<lambda>t. team_id t = tid) (teams db') of
                                            None \<Rightarrow> (Inl (HTTPException 500), db')
                                          | Some updated_team_doc \<Rightarrow>
                                              (Inr updated_team_doc, db'))))))))"

subsection \<open>remove_team_member\<close>

definition remove_team_member ::
  "Database \<Rightarrow> PyObjectId \<Rightarrow> PyObjectId \<Rightarrow> TokenPayload \<Rightarrow> datetime \<Rightarrow>
   (HTTPException + Team) \<times> Database" where
  "remove_team_member db tid user_id_to_remove payload now =
     (if \<not> truthy (tok_sub payload) then (Inl (HTTPException 400), db)
      else
        (case find_user_by_sub db (tok_sub payload) of
           None \<Rightarrow> (Inl (HTTPException 404), db)
         | Some requesting_user_doc \<Rightarrow>
             (case find (\<lambda>t. team_id t = tid) (teams db) of
                None \<Rightarrow> (Inl (HTTPException 404), db)
              | Some team \<Rightarrow>
                  (case find (\<lambda>org. org_id org = team_organization_id team) (organizations db) of
                     None \<Rightarrow> (Inl (HTTPException 500), db)
                   | Some organization \<Rightarrow>
                       (let requesting_user_internal_id = usr_id requesting_user_doc;
                            org_owner_or_admin =
                              is_org_owner_or_admin organization requesting_user_internal_id;
                            is_team_admin_requesting =
                              is_team_admin team requesting_user_internal_id
                        in if \<not> (org_owner_or_admin \<or> is_team_admin_requesting)
                           then (Inl (HTTPException 403), db)
                           else
                             (case find (\<lambda>m. user_id m = user_id_to_remove) (team_members team) of
                                None \<Rightarrow> (Inl (HTTPException 404), db)
                              | Some member_to_remove_info \<Rightarrow>
                                  if user_id_to_remove = requesting_user_internal_id
                                     \<and> role member_to_remove_info = ADMIN
                                     \<and> length (filter (\<lambda>m. role m = ADMIN) (team_members team)) \<le> 1
                                  then (Inl (HTTPException 400), db)
                                  else if \<not> org_owner_or_admin \<and> is_team_admin_requesting
                                          \<and> role member_to_remove_info = ADMIN
                                          \<and> user_id_to_remove \<noteq> requesting_user_internal_id
                                  then (Inl (HTTPException 403), db)
                                  else
                                    (let pull = (\<lambda>t. t\<lparr>team_members :=
                                                         filter (\<lambda>m. user_id m \<noteq> user_id_to_remove)
                                                           (team_members t),
                                                       team_updated_at := now\<rparr>);
                                         db' = db\<lparr>teams :=
                                                 update_one (\<lambda>t. team_id t = tid) pull (teams db)\<rparr>
                                     in if modified_count (\<lambda>t. team_id t = tid) pull (teams db) = 0
                                        then (Inl (HTTPException 500), db')
                                        else (case find (\<lambda>t. team_id t = tid) (teams db') of
                                                None \<Rightarrow> (Inl (HTTPException 500), db')
                                              | Some updated_team_doc \<Rightarrow>
                                                  (Inr updated_team_doc, db')))))))))"

section \<open>Services (services.py)\<close>

record ServiceUpdate =
  su_name :: "string option"
  su_status :: "ServiceStatusEnum option"

text \<open>
  \<open>get_organization_if_member\<close>: the organization when the user owns it or is one of
  its members; 404 when there is no such organization, 403 when the user is neither.
  Every user document read from the store has an id, so the check of line 34 never fires.
\<close>

definition get_organization_if_member ::
  "PyObjectId \<Rightarrow> User \<Rightarrow> Database \<Rightarrow> HTTPException + Organization" where
  "get_organization_if_member oid user db =
     (case find (\<lambda>org. org_id org = oid
                   \<and> (org_owner_id org = usr_id user
                      \<or> list_ex (\<lambda>m. user_id m = usr_id user) (org_members org)))
             (organizations db) of
        Some org_doc \<Rightarrow> Inr org_doc
      | None \<Rightarrow>
          if length (filter (\<lambda>org. org_id org = oid) (organizations db)) = 0
          then Inl (HTTPException 404)
          else Inl (HTTPException 403))"

text \<open>
  \<open>update_service\<close>. The e-mails queued for the subscribers and the broadcast to the
  organization's room leave the store untouched and are not part of the result here.
\<close>

definition update_service ::
  "Database \<Rightarrow> PyObjectId \<Rightarrow> ServiceUpdate \<Rightarrow> User \<Rightarrow> datetime \<Rightarrow>
   (HTTPException + Service) \<times> Database" where
  "update_service db service_id service_update current_user now =
     (case find (\<lambda>s. svc_id s = service_id) (services db) of
        None \<Rightarrow> (Inl (HTTPException 404), db)
      | Some existing_service \<Rightarrow>
          (case get_organization_if_member (svc_organization_id existing_service) current_user db of
             Inl e \<Rightarrow> (Inl e, db)
           | Inr organization \<Rightarrow>
               if su_name service_update = None \<and> su_status service_update = None
               then (Inr existing_service, db)
               else
                 (let push_history =
                        (case su_status service_update of
                           None \<Rightarrow> False
                         | Some incoming \<Rightarrow> incoming \<noteq> svc_status existing_service);
                      history_entry =
                        \<lparr>old_status = Some (svc_status existing_service),
                         new_status = (case su_status service_update of
                                         Some incoming \<Rightarrow> incoming
                                       | None \<Rightarrow> svc_status existing_service),
                         timestamp = now\<rparr>;
                      db' = db\<lparr>services :=
                              update_one (\<lambda>s. svc_id s = service_id)
                                (\<lambda>s. s\<lparr>svc_name := (case su_name service_update of
                                                       Some n \<Rightarrow> n | None \<Rightarrow> svc_name s),
                                       svc_status := (case su_status service_update of
                                                         Some incoming \<Rightarrow> incoming
                                                       | None \<Rightarrow> svc_status s),
                                       svc_status_history :=
                                         (if push_history
                                          then svc_status_history s @ [history_entry]
                                          else svc_status_history s),
                                       svc_updated_at := now\<rparr>)
                                (services db)\<rparr>
                  in (case find (\<lambda>s. svc_id s = service_id) (services db') of
                        None \<Rightarrow> (Inl (HTTPException 404), db')
                      | Some final_service \<Rightarrow> (Inr final_service, db')))))"

section \<open>Subscriptions (public.py, unsubscribe_from_updates)\<close>

text \<open>
  The response is the status code of the route's decorator together with the message of
  the returned dictionary.
\<close>

record Response =
  status_code :: nat
  message :: string

definition unsubscribe_from_updates ::
  "Database \<Rightarrow> string \<Rightarrow> string \<Rightarrow> Response \<times> Database" where
  "unsubscribe_from_updates db slug request_email =
     (case find (\<lambda>org. org_slug org = slug) (organizations db) of
        None \<Rightarrow>
          (\<lparr>status_code = 200, message = ''Your request has been processed.''\<rparr>, db)
      | Some organization \<Rightarrow>
          (\<lparr>status_code = 200, message = ''Your request has been processed.''\<rparr>,
           db\<lparr>subscribers :=
                filter (\<lambda>s. \<not> (sub_email s = request_email
                                \<and> sub_organization_id s = org_id organization))
                  (subscribers db)\<rparr>))"
section \<open>The uptime formula in the words of the specification\<close>




section \<open>A sample store\<close>

text \<open>
  The scenario of the specification: a service that was created operational twenty days
  before the query and went into a major outage ten days later.
\<close>

definition example_now :: datetime where
  "example_now = 1730000000000000"

definition example_user :: User where
  "example_user = \<lparr>usr_id = 3, usr_auth0_id = ''auth0|ada'', usr_email = ''ada@acme.test'',
     usr_name = Some ''Ada'', usr_picture = None,
     usr_created_at = example_now - days 30, usr_updated_at = example_now - days 30\<rparr>"

definition example_member :: User where
  "example_member = \<lparr>usr_id = 4, usr_auth0_id = ''auth0|bob'', usr_email = ''bob@acme.test'',
     usr_name = Some ''Bob'', usr_picture = None,
     usr_created_at = example_now - days 25, usr_updated_at = example_now - days 25\<rparr>"

definition example_outsider :: User where
  "example_outsider = \<lparr>usr_id = 5, usr_auth0_id = ''auth0|carol'', usr_email = ''carol@else.test'',
     usr_name = Some ''Carol'', usr_picture = None,
     usr_created_at = example_now - days 5, usr_updated_at = example_now - days 5\<rparr>"

definition example_payload :: TokenPayload where
  "example_payload = \<lparr>tok_sub = Some ''auth0|ada'', tok_email = Some ''ada@acme.test'',
     tok_name = Some ''Ada'', tok_picture = None\<rparr>"

definition member_payload :: TokenPayload where
  "member_payload = \<lparr>tok_sub = Some ''auth0|bob'', tok_email = Some ''bob@acme.test'',
     tok_name = Some ''Bob'', tok_picture = None\<rparr>"

definition example_org :: Organization where
  "example_org = \<lparr>org_id = 1, org_name = ''Acme'', org_slug = ''acme'', org_logo_url = None,
     org_owner_id = 3,
     org_members = [\<lparr>user_id = 3, role = ADMIN\<rparr>, \<lparr>user_id = 4, role = MEMBER\<rparr>],
     org_created_at = example_now - days 30, org_updated_at = example_now - days 30\<rparr>"

definition example_team :: Team where
  "example_team = \<lparr>team_id = 20, team_organization_id = 1, team_name = ''Platform'',
     team_description = None, team_members = [\<lparr>user_id = 3, role = ADMIN\<rparr>],
     team_created_at = example_now - days 28, team_updated_at = example_now - days 28\<rparr>"

definition two_admin_team :: Team where
  "two_admin_team = \<lparr>team_id = 21, team_organization_id = 1, team_name = ''Support'',
     team_description = None,
     team_members = [\<lparr>user_id = 4, role = ADMIN\<rparr>, \<lparr>user_id = 3, role = ADMIN\<rparr>],
     team_created_at = example_now - days 27, team_updated_at = example_now - days 27\<rparr>"

definition example_service :: Service where
  "example_service = \<lparr>svc_id = 7, svc_organization_id = 1, svc_name = ''api'',
     svc_status = MAJOR_OUTAGE, svc_status_history = [],
     svc_created_at = example_now - days 20, svc_updated_at = example_now - days 10\<rparr>"

definition example_db :: Database where
  "example_db = \<lparr>users = [example_user, example_member, example_outsider],
     organizations = [example_org], teams = [example_team, two_admin_team],
     services = [example_service],
     subscribers = [\<lparr>sub_email = ''eve@else.test'', sub_organization_id = 1\<rparr>],
     service_status_history =
       [\<lparr>doc_service_id = 7, doc_status = Some (Known OPERATIONAL),
          doc_timestamp = example_now - days 20\<rparr>,
        \<lparr>doc_service_id = 7, doc_status = Some (Known MAJOR_OUTAGE),
          doc_timestamp = example_now - days 10\<rparr>],
     next_id = 100\<rparr>"

section \<open>Termination of the slug loop\<close>

lemma str_of_nat_bound: "n < 10 ^ length (str_of_nat n)"
proof (induction n rule: str_of_nat.induct)
  case (1 n)
  show ?case
  proof (cases "n < 10")
    case True
    then show ?thesis by (simp add: str_of_nat.simps [of n])
  next
    case False
    with "1" have "n div 10 < 10 ^ length (str_of_nat (n div 10))" by simp
    then have "n < 10 * 10 ^ length (str_of_nat (n div 10))" by linarith
    with False show ?thesis by (simp add: str_of_nat.simps [of n])
  qed
qed

lemma find_slug_length:
  assumes "find (\<lambda>org. org_slug org = slug) orgs \<noteq> None"
  shows "length slug \<le> sum_list (map (length \<circ> org_slug) orgs)"
proof -
  from assms obtain org where "org \<in> set orgs" and "org_slug org = slug"
    by (auto simp add: find_None_iff)
  then show ?thesis
    using member_le_sum_list [of "length slug" "map (length \<circ> org_slug) orgs"] by force
qed

lemma candidate_counter_bound:
  assumes "find (\<lambda>org. org_slug org = base_slug @ ''-'' @ str_of_nat counter) orgs \<noteq> None"
  shows "counter < 10 ^ sum_list (map (length \<circ> org_slug) orgs)"
proof -
  have "length (str_of_nat counter) \<le> sum_list (map (length \<circ> org_slug) orgs)"
    using find_slug_length [OF assms] by simp
  then have "(10::nat) ^ length (str_of_nat counter) \<le> 10 ^ sum_list (map (length \<circ> org_slug) orgs)"
    by (simp add: power_increasing)
  with str_of_nat_bound [of counter] show ?thesis by linarith
qed

termination unique_slug
proof (relation "measure (\<lambda>(orgs, base_slug, slug, counter).
    if find (\<lambda>org. org_slug org = slug) orgs \<noteq> None
    then 1 + (10 ^ sum_list (map (length \<circ> org_slug) orgs) - counter) else 0)", goal_cases)
  case 1
  show ?case by simp
next
  case prems: (2 orgs base_slug slug counter)
  show ?case
  proof (cases "find (\<lambda>org. org_slug org = base_slug @ ''-'' @ str_of_nat counter) orgs \<noteq> None")
    case True
    from candidate_counter_bound [OF True] prems True show ?thesis by auto
  next
    case False
    with prems show ?thesis by auto
  qed
qed

declare unique_slug.simps [simp del]
section \<open>Properties of the uptime calculation\<close>

subsection \<open>The accumulators of the loop are the sums over the intervals\<close>











lemma total_seconds_ratio:
  "0 < tot \<Longrightarrow> (total_seconds u / total_seconds tot) * 100 = 100 * real_of_int u / real_of_int tot"
  by (simp add: total_seconds_def)

lemma total_seconds_pos: "(0 < total_seconds d) = (0 < d)"
  by (simp add: total_seconds_def)







subsection \<open>The daily summary\<close>

text \<open>
  What the two loops over the days leave in \<open>day_map\<close>, for every call that returns:
  the dates of the summary are the 91 dates from 90 days before the date of the query up
  to that date; each of the first 90 entries holds the result of the scan for its bucket;
  the last one, for the date of the query, holds the status of the first event.
\<close>

lemma date_of_plus_days: "date_of (t + days k) = date_of t + k"
  by (simp add: date_of_def days_def)

lemma date_of_minus_days: "date_of (t - days k) = date_of t - k"
  using date_of_plus_days [of "t - days k" k] by simp

lemma fold_update_props:
  fixes g :: "nat \<Rightarrow> caldate"
  shows "fst ` set (fold (\<lambda>i m. AList.update (g i) s m) ns m0) = g ` set ns \<union> fst ` set m0"
    and "distinct (map fst m0) \<Longrightarrow> distinct (map fst (fold (\<lambda>i m. AList.update (g i) s m) ns m0))"
    and "map_of (fold (\<lambda>i m. AList.update (g i) s m) ns m0) k
           = (if k \<in> g ` set ns then Some s else map_of m0 k)"
proof (induction ns arbitrary: m0)
  case Nil
  { case 1 show ?case by simp }
  { case 2 then show ?case by simp }
  { case 3 show ?case by simp }
next
  case (Cons n ns)
  { case 1 show ?case by (auto simp add: Cons.IH(1) AList.dom_update) }
  { case 2 then show ?case by (simp add: Cons.IH(2) AList.distinct_update) }
  { case 3 show ?case by (simp add: Cons.IH(3) AList.update_conv') }
qed

lemma initial_day_map_props:
  "fst ` set (initial_day_map end_date s) = {date_of end_date - 89 .. date_of end_date}"
  "distinct (map fst (initial_day_map end_date s))"
  "map_of (initial_day_map end_date s) (date_of end_date) = Some s"
proof -
  have img: "(\<lambda>i. date_of (end_date - days (int i))) ` set [0..<90]
               = {date_of end_date - 89 .. date_of end_date}" (is "?A = ?B")
  proof
    show "?A \<subseteq> ?B" by (auto simp add: date_of_minus_days)
    show "?B \<subseteq> ?A"
    proof
      fix k assume "k \<in> ?B"
      then have "nat (date_of end_date - k) \<in> set [0..<90]"
        and "k = date_of (end_date - days (int (nat (date_of end_date - k))))"
        by (auto simp add: date_of_minus_days)
      then show "k \<in> ?A" by blast
    qed
  qed
  show "fst ` set (initial_day_map end_date s) = {date_of end_date - 89 .. date_of end_date}"
    unfolding initial_day_map_def fold_update_props(1) img by simp
  show "distinct (map fst (initial_day_map end_date s))"
    unfolding initial_day_map_def by (rule fold_update_props(2)) simp
  have "date_of end_date \<in> (\<lambda>i. date_of (end_date - days (int i))) ` set [0..<90]"
    unfolding img by simp
  then show "map_of (initial_day_map end_date s) (date_of end_date) = Some s"
    unfolding initial_day_map_def fold_update_props(3) by simp
qed

lemma daily_loop_keep:
  assumes "daily_loop evs starts m = Inr m'" and "k \<notin> date_of ` set starts"
  shows "map_of m' k = map_of m k"
  using assms
proof (induction starts arbitrary: m)
  case Nil
  then show ?case by simp
next
  case (Cons day_start rest)
  from Cons.prems(1) obtain w sev where
    rec: "daily_loop evs rest (AList.update (date_of day_start) w m) = Inr m'"
    by (auto simp add: Let_def split: sum.splits)
  from Cons.IH [OF rec] Cons.prems(2) show ?case
    by (simp add: AList.update_conv')
qed

lemma daily_loop_step:
  assumes "daily_loop evs (day_start # rest) m = Inr m'"
  obtains w sev where
    "worst_scan (day_start + days 1) evs (OPERATIONAL, 0) = Inr (w, sev)"
    "daily_loop evs rest (AList.update (date_of day_start) w m) = Inr m'"
  using assms by (auto simp add: Let_def split: sum.splits)

lemma daily_loop_keys:
  assumes "daily_loop evs starts m = Inr m'"
  shows "fst ` set m' = date_of ` set starts \<union> fst ` set m"
  using assms
proof (induction starts arbitrary: m)
  case Nil
  then show ?case by simp
next
  case (Cons day_start rest)
  from Cons.prems obtain w sev where
    rec: "daily_loop evs rest (AList.update (date_of day_start) w m) = Inr m'"
    by (rule daily_loop_step)
  from Cons.IH [OF rec] show ?case
    by (auto simp add: AList.dom_update)
qed

lemma daily_loop_distinct:
  assumes "daily_loop evs starts m = Inr m'" and "distinct (map fst m)"
  shows "distinct (map fst m')"
  using assms
proof (induction starts arbitrary: m)
  case Nil
  then show ?case by simp
next
  case (Cons day_start rest)
  from Cons.prems(1) obtain w sev where
    rec: "daily_loop evs rest (AList.update (date_of day_start) w m) = Inr m'"
    by (rule daily_loop_step)
  have "distinct (map fst (AList.update (date_of day_start) w m))"
    using Cons.prems(2) by (simp add: AList.distinct_update)
  from Cons.IH [OF rec this] show ?case .
qed

lemma daily_loop_value:
  assumes "daily_loop evs starts m = Inr m'"
    and "distinct (map date_of starts)" and "ds \<in> set starts"
  shows "\<exists>w sev. worst_scan (ds + days 1) evs (OPERATIONAL, 0) = Inr (w, sev)
                 \<and> map_of m' (date_of ds) = Some w"
  using assms
proof (induction starts arbitrary: m)
  case Nil
  then show ?case by simp
next
  case (Cons day_start rest)
  from Cons.prems(1) obtain w sev where
    ws: "worst_scan (day_start + days 1) evs (OPERATIONAL, 0) = Inr (w, sev)" and
    rec: "daily_loop evs rest (AList.update (date_of day_start) w m) = Inr m'"
    by (rule daily_loop_step)
  show ?case
  proof (cases "ds = day_start")
    case True
    from Cons.prems(2) have "date_of day_start \<notin> date_of ` set rest" by simp
    from daily_loop_keep [OF rec this]
    have "map_of m' (date_of day_start) = Some w"
      by (simp add: AList.update_conv')
    with ws True show ?thesis by blast
  next
    case False
    with Cons.prems(3) have in_rest: "ds \<in> set rest" by simp
    from Cons.prems(2) have "distinct (map date_of rest)" by simp
    from Cons.IH [OF rec this in_rest] show ?thesis .
  qed
qed


lemma distinct_map_sort_key:
  "distinct (map f xs) \<Longrightarrow> distinct (map f (sort_key f xs))"
  by (simp add: distinct_map)

lemma day_map_dates:
  "map date (map (\<lambda>(d, s). \<lparr>date = d, status = s\<rparr>) m) = map fst m"
  by (induction m) auto

lemma sorted_day_map_dates:
  assumes "distinct (map fst m)" and "fst ` set m = {a..b}"
  shows "map date (sort_key date (map (\<lambda>(d, s). \<lparr>date = d, status = s\<rparr>) m)) = [a..b]"
proof -
  define xs where "xs = map (\<lambda>(d, s). \<lparr>date = d, status = s\<rparr>) m"
  have keys: "map date xs = map fst m"
    unfolding xs_def by (rule day_map_dates)
  have "distinct (map date xs)"
    unfolding keys by (rule assms(1))
  then have d: "distinct (map date (sort_key date xs))"
    by (rule distinct_map_sort_key)
  have "set (map date (sort_key date xs)) = set (map date xs)"
    by (simp only: set_map set_sort)
  also have "\<dots> = {a..b}"
    unfolding keys using assms(2) by simp
  finally have s: "set (map date (sort_key date xs)) = set [a..b]"
    by simp
  have "sorted (map date (sort_key date xs))"
    by (rule sorted_sort_key)
  then have "map date (sort_key date xs) = [a..b]"
    using d s by (intro sorted_distinct_set_unique) simp_all
  then show ?thesis
    unfolding xs_def .
qed

lemma sorted_day_map_lookup:
  assumes "distinct (map fst m)"
    and "ds = sort_key date (map (\<lambda>(d, s). \<lparr>date = d, status = s\<rparr>) m)"
    and "e \<in> set ds"
  shows "map_of m (date e) = Some (status e)"
proof -
  from assms(2,3) obtain d s where "(d, s) \<in> set m" and "e = \<lparr>date = d, status = s\<rparr>"
    by auto
  with assms(1) show ?thesis by simp
qed

lemma bucket_dates:
  "date_of ` set (map (\<lambda>n. end_date - days 90 + days (int n)) [0..<90])
     = {date_of end_date - 90 .. date_of end_date - 1}" (is "?A = ?B")
proof
  show "?A \<subseteq> ?B"
    by (auto simp add: date_of_plus_days date_of_minus_days)
  show "?B \<subseteq> ?A"
  proof
    fix k assume k: "k \<in> ?B"
    then have "nat (k - (date_of end_date - 90)) \<in> set [0..<90]"
      by auto
    moreover from k have
      "k = date_of (end_date - days 90 + days (int (nat (k - (date_of end_date - 90)))))"
      by (simp add: date_of_plus_days date_of_minus_days)
    ultimately show "k \<in> ?A"
      by (metis (no_types, lifting) image_eqI set_map)
  qed
qed

lemma bucket_dates_distinct:
  "distinct (map date_of (map (\<lambda>n. end_date - days 90 + days (int n)) [0..<90]))"
  by (simp add: distinct_map inj_on_def date_of_plus_days date_of_minus_days)

lemma ServiceStatusEnum_of_Inr: "(ServiceStatusEnum_of raw = Inr s) = (raw = Known s)"
  by (cases raw) simp_all

lemma uptime_of_events_daily:
  assumes "uptime_of_events service_doc events start_date end_date = Inr r"
  shows "\<exists>init m'. doc_status (hd events) = Some (Known init)
       \<and> daily_loop (sort_key doc_timestamp events)
            (map (\<lambda>n. start_date + days (int n)) [0..<90]) (initial_day_map end_date init)
           = Inr m'
       \<and> daily_statuses r = sort_key date (map (\<lambda>(d, s). \<lparr>date = d, status = s\<rparr>) m')"
  using assms unfolding uptime_of_events_def Let_def
  by (cases "uptime_loop events")
     (auto simp add: ServiceStatusEnum_of_Inr split: option.splits sum.splits)

lemma daily_statuses_shape:
  assumes "uptime_of_events service_doc events (end_date - days 90) end_date = Inr r"
  shows "map date (daily_statuses r) = [date_of end_date - 90 .. date_of end_date]"
    and "k < 90 \<Longrightarrow>
           \<exists>sev. worst_scan (end_date - days 90 + days (int k) + days 1)
                    (sort_key doc_timestamp events) (OPERATIONAL, 0)
                  = Inr (status (daily_statuses r ! k), sev)"
    and "doc_status (hd events) = Some (Known (status (daily_statuses r ! 90)))"
proof -
  let ?starts = "map (\<lambda>n. end_date - days 90 + days (int n)) [0..<90]"
  let ?D = "date_of end_date"
  from assms obtain init m' where
    first: "doc_status (hd events) = Some (Known init)" and
    loop: "daily_loop (sort_key doc_timestamp events) ?starts (initial_day_map end_date init)
             = Inr m'" and
    res: "daily_statuses r = sort_key date (map (\<lambda>(d, s). \<lparr>date = d, status = s\<rparr>) m')"
    using uptime_of_events_daily by blast
  have dist: "distinct (map fst m')"
    using daily_loop_distinct [OF loop initial_day_map_props(2)] .
  have "fst ` set m' = {?D - 90 .. ?D - 1} \<union> {?D - 89 .. ?D}"
    using daily_loop_keys [OF loop] by (simp only: bucket_dates initial_day_map_props(1))
  then have keys: "fst ` set m' = {?D - 90 .. ?D}"
    by auto
  show dates: "map date (daily_statuses r) = [?D - 90 .. ?D]"
    unfolding res by (rule sorted_day_map_dates [OF dist keys])
  have "length (map date (daily_statuses r)) = length [?D - 90 .. ?D]"
    by (simp only: dates)
  then have len: "length (daily_statuses r) = 91"
    by simp
  have entry: "map_of m' (?D - 90 + int j) = Some (status (daily_statuses r ! j))" if "j < 91" for j
  proof -
    from that len have mem: "daily_statuses r ! j \<in> set (daily_statuses r)"
      by simp
    from that len have "date (daily_statuses r ! j) = map date (daily_statuses r) ! j"
      by simp
    also have "\<dots> = ?D - 90 + int j"
      unfolding dates using that by simp
    finally have "date (daily_statuses r ! j) = ?D - 90 + int j" .
    with sorted_day_map_lookup [OF dist res mem] show ?thesis
      by simp
  qed
  { assume k: "k < 90"
    then have "end_date - days 90 + days (int k) \<in> set ?starts"
      by simp
    from daily_loop_value [OF loop bucket_dates_distinct this]
    obtain w sev where
      ws: "worst_scan (end_date - days 90 + days (int k) + days 1)
             (sort_key doc_timestamp events) (OPERATIONAL, 0) = Inr (w, sev)" and
      mo: "map_of m' (date_of (end_date - days 90 + days (int k))) = Some w"
      by blast
    from k have "map_of m' (?D - 90 + int k) = Some (status (daily_statuses r ! k))"
      by (intro entry) simp
    with mo have "w = status (daily_statuses r ! k)"
      by (simp add: date_of_plus_days date_of_minus_days)
    with ws show "\<exists>sev. worst_scan (end_date - days 90 + days (int k) + days 1)
                    (sort_key doc_timestamp events) (OPERATIONAL, 0)
                  = Inr (status (daily_statuses r ! k), sev)"
      by blast }
  have "?D \<notin> date_of ` set ?starts"
    unfolding bucket_dates by simp
  from daily_loop_keep [OF loop this]
  have "map_of m' ?D = Some init"
    by (simp add: initial_day_map_props(3))
  moreover have "map_of m' (?D - 90 + int 90) = Some (status (daily_statuses r ! 90))"
    by (intro entry) simp
  ultimately have "init = status (daily_statuses r ! 90)"
    by simp
  with first show "doc_status (hd events) = Some (Known (status (daily_statuses r ! 90)))"
    by simp
qed

text \<open>
  Claim C2. On the sample store the summary has 91 entries, not 90, and the entry of the
  day of the query reports the status of the first event, \<open>OPERATIONAL\<close>, although the
  major outage began ten days earlier.
\<close>

theorem today_entry:
  "case get_service_uptime example_db ''acme'' (Some 7) example_now of
     Inl _ \<Rightarrow> False
   | Inr r \<Rightarrow> length (daily_statuses r) = 91
       \<and> last (daily_statuses r) = \<lparr>date = date_of example_now, status = OPERATIONAL\<rparr>"
  by code_simp

text \<open>
  Claim C6. The log of the sample store holds one worsening event and no recovery, yet the
  severities of the returned days, in date order, end with 5 followed by 0.
\<close>

theorem daily_severity_drops:
  "case get_service_uptime example_db ''acme'' (Some 7) example_now of
     Inl _ \<Rightarrow> False
   | Inr r \<Rightarrow>
       date (daily_statuses r ! 89) < date (daily_statuses r ! 90)
       \<and> severity_map (status (daily_statuses r ! 89)) = 5
       \<and> severity_map (status (daily_statuses r ! 90)) = 0"
  by code_simp
section \<open>Properties of the document store\<close>

lemma find_update_one:
  assumes "\<And>x. P (f x) = P x"
  shows "find P (update_one P f xs) = map_option f (find P xs)"
  using assms by (induction xs) simp_all

lemma find_update_one_other:
  assumes "\<And>x. P (f x) = P x" and "\<And>x. g (f x) = g x"
  shows "map_option g (find P (update_one Q f xs)) = map_option g (find P xs)"
  using assms by (induction xs) simp_all

lemma find_append_if:
  "find P (xs @ ys) = (case find P xs of None \<Rightarrow> find P ys | Some x \<Rightarrow> Some x)"
  by (induction xs) simp_all

lemma find_Some_mem: "find P xs = Some x \<Longrightarrow> x \<in> set xs \<and> P x"
  by (induction xs) (auto split: if_splits)

lemma filter_neq_self:
  assumes "x \<in> set xs" and "\<not> P x"
  shows "filter P xs \<noteq> xs"
proof
  assume "filter P xs = xs"
  then have "set (filter P xs) = set xs" by simp
  with assms show False by auto
qed

lemma update_one_no_match: "find P xs = None \<Longrightarrow> update_one P f xs = xs"
  by (induction xs) (simp_all split: if_splits)

section \<open>Organizations\<close>

subsection \<open>Creation\<close>

lemma refresh_user_organizations:
  "organizations (refresh_user db user_doc payload now) = organizations db"
  by (simp add: refresh_user_def Let_def)

lemma refresh_user_find:
  "map_option usr_id (find_user_by_sub (refresh_user db user_doc payload now) sub)
     = map_option usr_id (find_user_by_sub db sub)"
  by (cases sub) (simp_all add: refresh_user_def Let_def find_user_by_sub_def find_update_one_other)

lemma insert_organization_result:
  assumes "insert_organization db org_in slug uid now = (res, db')"
  shows "organizations db' = organizations db
            @ [\<lparr>org_id = next_id db, org_name = oc_name org_in, org_slug = slug,
                 org_logo_url = oc_logo_url org_in, org_owner_id = uid,
                 org_members = [\<lparr>user_id = uid, role = ADMIN\<rparr>],
                 org_created_at = now, org_updated_at = now\<rparr>]
         \<and> users db' = users db"
  using assms by (auto simp add: insert_organization_def Let_def split: option.splits)

text \<open>
  Claim C9. After a successful \<open>create_organization\<close> the collection holds one more
  document; its \<open>owner_id\<close> is the internal id of the user the token's subject resolves
  to (the user found, or the one just created), its member list is that user alone with
  role \<open>ADMIN\<close>, and so the owner passes the member-based check of
  \<open>add_organization_member\<close>.
\<close>

theorem created_organization_owner:
  assumes "create_organization user_validates db org_in payload now = (Inr created, db')"
  shows "\<exists>stored. organizations db' = organizations db @ [stored]
       \<and> org_owner_id stored =
           (case find_user_by_sub db (tok_sub payload) of
              Some u \<Rightarrow> usr_id u | None \<Rightarrow> next_id db)
       \<and> map_option usr_id (find_user_by_sub db' (tok_sub payload)) = Some (org_owner_id stored)
       \<and> org_members stored = [\<lparr>user_id = org_owner_id stored, role = ADMIN\<rparr>]
       \<and> can_add_members stored (org_owner_id stored)"
proof (cases "find_user_by_sub db (tok_sub payload)")
  case (Some user_doc)
  with assms have ins: "insert_organization (refresh_user db user_doc payload now) org_in
      (unique_slug (organizations db) (slugify (oc_name org_in)) (slugify (oc_name org_in)) 1)
      (usr_id user_doc) now = (Inr created, db')"
    by (simp add: create_organization_def Let_def split: if_splits)
  from insert_organization_result [OF ins] Some
  show ?thesis
    using refresh_user_find [of db user_doc payload now "tok_sub payload"]
    by (simp add: refresh_user_organizations can_add_members_def find_user_by_sub_def
        split: option.splits)
next
  case None
  with assms obtain sub email where
    sub: "tok_sub payload = Some sub" and
    ins: "insert_organization
            (db\<lparr>users := users db @
                   [\<lparr>usr_id = next_id db, usr_auth0_id = sub, usr_email = email,
                     usr_name = tok_name payload, usr_picture = tok_picture payload,
                     usr_created_at = now, usr_updated_at = now\<rparr>],
                 next_id := next_id db + 1\<rparr>)
            org_in
            (unique_slug (organizations db) (slugify (oc_name org_in)) (slugify (oc_name org_in)) 1)
            (next_id db) now = (Inr created, db')"
    by (auto simp add: create_organization_def Let_def split: if_splits option.splits)
  from insert_organization_result [OF ins] None sub
  show ?thesis
    by (simp add: can_add_members_def find_user_by_sub_def find_append_if)
qed

lemma example_create_returns:
  "case fst (create_organization (\<lambda>p. True) example_db
               \<lparr>oc_name = ''Acme'', oc_logo_url = None\<rparr> example_payload example_now) of
     Inl _ \<Rightarrow> False | Inr created \<Rightarrow> True"
  by code_simp

theorem created_organization_owner_witness:
  "\<exists>stored.
     organizations (snd (create_organization (\<lambda>p. True) example_db
                           \<lparr>oc_name = ''Acme'', oc_logo_url = None\<rparr> example_payload example_now))
       = organizations example_db @ [stored]
     \<and> org_owner_id stored = 3
     \<and> org_members stored = [\<lparr>user_id = 3, role = ADMIN\<rparr>]
     \<and> can_add_members stored 3"
proof -
  let ?run = "create_organization (\<lambda>p. True) example_db
                \<lparr>oc_name = ''Acme'', oc_logo_url = None\<rparr> example_payload example_now"
  from example_create_returns obtain created where "fst ?run = Inr created"
    by (cases "fst ?run") simp_all
  then have run: "?run = (Inr created, snd ?run)"
    by (simp add: prod_eq_iff)
  have who: "find_user_by_sub example_db (tok_sub example_payload) = Some example_user"
    by (simp add: find_user_by_sub_def example_db_def example_payload_def example_user_def)
  from created_organization_owner [OF run] who show ?thesis
    by (auto simp add: example_user_def)
qed

subsection \<open>Adding a member\<close>




subsection \<open>The owner is protected\<close>

text \<open>
  Claim C4. When the target is the owner of the organization, \<open>remove_organization_member\<close>
  and \<open>update_organization_member_role\<close> both end in an error; a request for the role
  \<open>OWNER\<close> ends in an error whoever the target is; and in each of these cases the store,
  and with it the member list, is what it was.
\<close>

theorem owner_protected:
  "(find (\<lambda>org. org_id org = oid) (organizations db) = Some organization
    \<and> target = org_owner_id organization \<longrightarrow>
      (\<exists>e. remove_organization_member db oid target payload = (Inl e, db))
      \<and> (\<exists>e. update_organization_member_role db oid target role_data payload now = (Inl e, db)))
   \<and> (\<exists>e. update_organization_member_role db oid target OWNER payload now = (Inl e, db))"
  by (auto simp add: remove_organization_member_def update_organization_member_role_def Let_def
      split: option.splits)

theorem owner_protected_witness:
  "(\<exists>e. remove_organization_member example_db 1 3 example_payload = (Inl e, example_db))
   \<and> (\<exists>e. update_organization_member_role example_db 1 3 MEMBER example_payload example_now
            = (Inl e, example_db))
   \<and> (\<exists>e. update_organization_member_role example_db 1 4 OWNER example_payload example_now
            = (Inl e, example_db))"
proof -
  have org: "find (\<lambda>org. org_id org = 1) (organizations example_db) = Some example_org
             \<and> 3 = org_owner_id example_org"
    by (simp add: example_db_def example_org_def)
  from owner_protected [of 1 example_db example_org 3 example_payload MEMBER example_now] org
  have a: "(\<exists>e. remove_organization_member example_db 1 3 example_payload = (Inl e, example_db))
   \<and> (\<exists>e. update_organization_member_role example_db 1 3 MEMBER example_payload example_now
            = (Inl e, example_db))"
    by blast
  from owner_protected [of 1 example_db example_org 4 example_payload MEMBER example_now]
  have b: "\<exists>e. update_organization_member_role example_db 1 4 OWNER example_payload example_now
            = (Inl e, example_db)"
    by blast
  from a b show ?thesis by blast
qed

section \<open>Teams\<close>

lemma add_team_member_success:
  assumes "add_team_member db tid member_data adder_payload now0 = (Inr team1, db1)"
    and "find (\<lambda>t. team_id t = tid) (teams db) = Some team"
  shows "team1 = team\<lparr>team_members := team_members team
                          @ [\<lparr>user_id = tma_user_id member_data, role = tma_role member_data\<rparr>],
                      team_updated_at := now0\<rparr>
       \<and> find (\<lambda>t. team_id t = tid) (teams db1) = Some team1
       \<and> users db1 = users db \<and> organizations db1 = organizations db"
  using assms
  by (auto simp add: add_team_member_def Let_def find_update_one
      split: if_splits option.splits)

lemma remove_team_member_self:
  assumes sub: "truthy (tok_sub payload)"
    and user: "find_user_by_sub db (tok_sub payload) = Some requester"
    and team: "find (\<lambda>t. team_id t = tid) (teams db) = Some team"
    and org: "find (\<lambda>org. org_id org = team_organization_id team) (organizations db)
                = Some organization"
    and auth: "is_org_owner_or_admin organization (usr_id requester)
               \<or> is_team_admin team (usr_id requester)"
    and target: "find (\<lambda>m. user_id m = usr_id requester) (team_members team) = Some info"
    and many: "role info = ADMIN \<longrightarrow> 1 < length (filter (\<lambda>m. role m = ADMIN) (team_members team))"
  shows "remove_team_member db tid (usr_id requester) payload now =
           (Inr (team\<lparr>team_members := filter (\<lambda>m. user_id m \<noteq> usr_id requester) (team_members team),
                      team_updated_at := now\<rparr>),
            db\<lparr>teams := update_one (\<lambda>t. team_id t = tid)
                 (\<lambda>t. t\<lparr>team_members := filter (\<lambda>m. user_id m \<noteq> usr_id requester) (team_members t),
                        team_updated_at := now\<rparr>) (teams db)\<rparr>)"
proof -
  from find_Some_mem [OF target] have mem: "info \<in> set (team_members team)"
    and uid: "user_id info = usr_id requester" by simp_all
  have changed: "filter (\<lambda>m. user_id m \<noteq> usr_id requester) (team_members team) \<noteq> team_members team"
    using filter_neq_self [OF mem, of "\<lambda>m. user_id m \<noteq> usr_id requester"] uid by simp
  have neq: "team\<lparr>team_members := filter (\<lambda>m. user_id m \<noteq> usr_id requester) (team_members team),
                   team_updated_at := now\<rparr> \<noteq> team"
  proof
    assume "team\<lparr>team_members := filter (\<lambda>m. user_id m \<noteq> usr_id requester) (team_members team),
                   team_updated_at := now\<rparr> = team"
    then have "team_members (team\<lparr>team_members := filter (\<lambda>m. user_id m \<noteq> usr_id requester) (team_members team),
                   team_updated_at := now\<rparr>) = team_members team" by simp
    with changed show False by simp
  qed
  show ?thesis
    using sub user team org auth target many neq
    by (auto simp add: remove_team_member_def Let_def modified_count_def find_update_one)
qed

lemma admin_count_pos:
  assumes "info \<in> set ms" and "role info = ADMIN"
  shows "0 < length (filter (\<lambda>m. role m = ADMIN) ms)"
  using assms by (induction ms) auto

text \<open>
  Claim C5. The requester is resolved and authorized, and the target is a member of the
  team whose role is \<open>ADMIN\<close>. Then: a requester who removes themselves from a team with
  at most one admin gets 400; a team admin without rights in the organization who
  removes another admin gets 403; in both cases the store is unchanged. And once
  \<open>add_team_member\<close> has added a second member with role \<open>ADMIN\<close>, the first admin's
  removal of themselves succeeds and takes them off the team.
\<close>

theorem remove_team_member_admin_rules:
  assumes sub: "truthy (tok_sub payload)"
    and user: "find_user_by_sub db (tok_sub payload) = Some requester"
    and team: "find (\<lambda>t. team_id t = tid) (teams db) = Some team"
    and org: "find (\<lambda>org. org_id org = team_organization_id team) (organizations db)
                = Some organization"
    and auth: "is_org_owner_or_admin organization (usr_id requester)
               \<or> is_team_admin team (usr_id requester)"
    and target: "find (\<lambda>m. user_id m = target) (team_members team) = Some member_to_remove_info"
    and admin: "role member_to_remove_info = ADMIN"
  shows "(target = usr_id requester
          \<and> length (filter (\<lambda>m. role m = ADMIN) (team_members team)) \<le> 1 \<longrightarrow>
            remove_team_member db tid target payload now = (Inl (HTTPException 400), db))
       \<and> (target \<noteq> usr_id requester \<and> is_team_admin team (usr_id requester)
          \<and> \<not> is_org_owner_or_admin organization (usr_id requester) \<longrightarrow>
            remove_team_member db tid target payload now = (Inl (HTTPException 403), db))
       \<and> (target = usr_id requester
          \<and> add_team_member db tid \<lparr>tma_user_id = second, tma_role = ADMIN\<rparr> adder_payload now0
              = (Inr team1, db1) \<longrightarrow>
            (\<exists>team2 db2.
               remove_team_member db1 tid target payload now = (Inr team2, db2)
               \<and> find (\<lambda>t. team_id t = tid) (teams db2) = Some team2
               \<and> team_members team2 = filter (\<lambda>m. user_id m \<noteq> target) (team_members team1)))"
proof (intro conjI impI)
  assume "target = usr_id requester
          \<and> length (filter (\<lambda>m. role m = ADMIN) (team_members team)) \<le> 1"
  then show "remove_team_member db tid target payload now = (Inl (HTTPException 400), db)"
    using sub user team org auth target admin
    by (auto simp add: remove_team_member_def Let_def)
next
  assume "target \<noteq> usr_id requester \<and> is_team_admin team (usr_id requester)
          \<and> \<not> is_org_owner_or_admin organization (usr_id requester)"
  then show "remove_team_member db tid target payload now = (Inl (HTTPException 403), db)"
    using sub user team org target admin
    by (auto simp add: remove_team_member_def Let_def)
next
  assume c: "target = usr_id requester
          \<and> add_team_member db tid \<lparr>tma_user_id = second, tma_role = ADMIN\<rparr> adder_payload now0
              = (Inr team1, db1)"
  then have self: "target = usr_id requester" and
    added: "add_team_member db tid \<lparr>tma_user_id = second, tma_role = ADMIN\<rparr> adder_payload now0
              = (Inr team1, db1)"
    by simp_all
  from add_team_member_success [OF added team]
  have team1: "team1 = team\<lparr>team_members := team_members team @ [\<lparr>user_id = second, role = ADMIN\<rparr>],
                             team_updated_at := now0\<rparr>"
    and found1: "find (\<lambda>t. team_id t = tid) (teams db1) = Some team1"
    and users1: "users db1 = users db" and orgs1: "organizations db1 = organizations db"
    by simp_all
  have user1: "find_user_by_sub db1 (tok_sub payload) = Some requester"
    using user unfolding find_user_by_sub_def users1 .
  have org1: "find (\<lambda>org. org_id org = team_organization_id team1) (organizations db1)
                = Some organization"
    using org orgs1 team1 by simp
  have auth1: "is_org_owner_or_admin organization (usr_id requester)
               \<or> is_team_admin team1 (usr_id requester)"
    using auth team1 by (auto simp add: is_team_admin_def)
  have target1: "find (\<lambda>m. user_id m = usr_id requester) (team_members team1)
                   = Some member_to_remove_info"
    using target self team1 by (simp add: find_append_if)
  from find_Some_mem [OF target] have "member_to_remove_info \<in> set (team_members team)"
    by simp
  from admin_count_pos [OF this admin]
  have many1: "role member_to_remove_info = ADMIN \<longrightarrow>
      1 < length (filter (\<lambda>m. role m = ADMIN) (team_members team1))"
    using team1 by simp
  from remove_team_member_self [OF sub user1 found1 org1 auth1 target1 many1, of now]
  show "\<exists>team2 db2.
               remove_team_member db1 tid target payload now = (Inr team2, db2)
               \<and> find (\<lambda>t. team_id t = tid) (teams db2) = Some team2
               \<and> team_members team2 = filter (\<lambda>m. user_id m \<noteq> target) (team_members team1)"
    using self found1 by (simp add: find_update_one)
qed

lemma example_team_lookup:
  "truthy (tok_sub example_payload)"
  "find_user_by_sub example_db (tok_sub example_payload) = Some example_user"
  "find (\<lambda>t. team_id t = 20) (teams example_db) = Some example_team"
  "find (\<lambda>org. org_id org = team_organization_id example_team) (organizations example_db)
     = Some example_org"
  "is_org_owner_or_admin example_org (usr_id example_user)
     \<or> is_team_admin example_team (usr_id example_user)"
  "find (\<lambda>m. user_id m = 3) (team_members example_team) = Some \<lparr>user_id = 3, role = ADMIN\<rparr>"
  by (simp_all add: truthy_def find_user_by_sub_def example_db_def example_payload_def
      example_user_def example_team_def example_org_def is_org_owner_or_admin_def)

lemma two_admin_team_lookup:
  "truthy (tok_sub member_payload)"
  "find_user_by_sub example_db (tok_sub member_payload) = Some example_member"
  "find (\<lambda>t. team_id t = 21) (teams example_db) = Some two_admin_team"
  "find (\<lambda>org. org_id org = team_organization_id two_admin_team) (organizations example_db)
     = Some example_org"
  "is_org_owner_or_admin example_org (usr_id example_member)
     \<or> is_team_admin two_admin_team (usr_id example_member)"
  "find (\<lambda>m. user_id m = 3) (team_members two_admin_team) = Some \<lparr>user_id = 3, role = ADMIN\<rparr>"
  by (simp_all add: truthy_def find_user_by_sub_def example_db_def member_payload_def
      example_user_def example_member_def example_team_def two_admin_team_def example_org_def
      is_team_admin_def)

lemma example_second_admin:
  "add_team_member example_db 20 \<lparr>tma_user_id = 4, tma_role = ADMIN\<rparr> example_payload
       (example_now + 1)
     = (Inr (example_team\<lparr>team_members := [\<lparr>user_id = 3, role = ADMIN\<rparr>,
                                              \<lparr>user_id = 4, role = ADMIN\<rparr>],
                           team_updated_at := example_now + 1\<rparr>),
        example_db\<lparr>teams := [example_team\<lparr>team_members := [\<lparr>user_id = 3, role = ADMIN\<rparr>,
                                                              \<lparr>user_id = 4, role = ADMIN\<rparr>],
                                           team_updated_at := example_now + 1\<rparr>,
                              two_admin_team]\<rparr>)"
  by (simp add: add_team_member_def Let_def truthy_def find_user_by_sub_def example_db_def
      example_payload_def example_user_def example_member_def example_team_def two_admin_team_def
      example_org_def is_org_owner_or_admin_def modified_count_def)

theorem remove_team_member_admin_rules_witness:
  "remove_team_member example_db 20 3 example_payload example_now
     = (Inl (HTTPException 400), example_db)
   \<and> remove_team_member example_db 21 3 member_payload example_now
     = (Inl (HTTPException 403), example_db)
   \<and> (\<exists>team2 db2.
        remove_team_member
          (snd (add_team_member example_db 20 \<lparr>tma_user_id = 4, tma_role = ADMIN\<rparr>
                  example_payload (example_now + 1)))
          20 3 example_payload (example_now + 2) = (Inr team2, db2)
        \<and> team_members team2 = [\<lparr>user_id = 4, role = ADMIN\<rparr>])"
proof -
  let ?team1 = "example_team\<lparr>team_members := [\<lparr>user_id = 3, role = ADMIN\<rparr>,
                                                \<lparr>user_id = 4, role = ADMIN\<rparr>],
                             team_updated_at := example_now + 1\<rparr>"
  let ?db1 = "example_db\<lparr>teams := [?team1, two_admin_team]\<rparr>"
  have r: "role \<lparr>user_id = 3, role = ADMIN\<rparr> = ADMIN" by simp
  note one = remove_team_member_admin_rules [OF example_team_lookup r,
      of example_now 4 example_payload "example_now + 1" ?team1 ?db1]
  note two = remove_team_member_admin_rules [OF two_admin_team_lookup r,
      of example_now 4 example_payload "example_now + 1" ?team1 ?db1]
  note three = remove_team_member_admin_rules [OF example_team_lookup r,
      of "example_now + 2" 4 example_payload "example_now + 1" ?team1 ?db1]
  have a: "remove_team_member example_db 20 3 example_payload example_now
     = (Inl (HTTPException 400), example_db)"
    using one by (simp add: example_user_def example_team_def)
  have b: "remove_team_member example_db 21 3 member_payload example_now
     = (Inl (HTTPException 403), example_db)"
    using two
    by (simp add: example_member_def two_admin_team_def example_org_def is_team_admin_def
        is_org_owner_or_admin_def)
  have self: "3 = usr_id example_user"
    by (simp add: example_user_def)
  from three self example_second_admin
  have "\<exists>team2 db2.
        remove_team_member ?db1 20 3 example_payload (example_now + 2) = (Inr team2, db2)
        \<and> find (\<lambda>t. team_id t = 20) (teams db2) = Some team2
        \<and> team_members team2 = filter (\<lambda>m. user_id m \<noteq> 3) (team_members ?team1)"
    by blast
  then have c: "\<exists>team2 db2.
        remove_team_member
          (snd (add_team_member example_db 20 \<lparr>tma_user_id = 4, tma_role = ADMIN\<rparr>
                  example_payload (example_now + 1)))
          20 3 example_payload (example_now + 2) = (Inr team2, db2)
        \<and> team_members team2 = [\<lparr>user_id = 4, role = ADMIN\<rparr>]"
    unfolding example_second_admin by auto
  from a b c show ?thesis by blast
qed

section \<open>Services\<close>

lemma update_service_error_keeps_db:
  "fst (update_service db sid service_update current_user now) = Inl e \<Longrightarrow>
   snd (update_service db sid service_update current_user now) = db"
  by (auto simp add: update_service_def Let_def find_update_one
      split: option.splits sum.splits if_splits)

text \<open>
  Claim C7. When the service exists and the caller belongs to its organization,
  \<open>update_service\<close> succeeds, and the stored history is the old one followed by the one
  entry \<open>(old status, incoming status, now)\<close> when the payload carries a status other than
  the current one; it is the old history when the payload carries the current status or
  none. A call that ends in an error leaves the store, and so every history, as it was.
\<close>

theorem update_service_history:
  "(find (\<lambda>s. svc_id s = sid) (services db) = Some existing_service
    \<and> get_organization_if_member (svc_organization_id existing_service) current_user db
        = Inr organization \<longrightarrow>
    (\<exists>final_service db'.
       update_service db sid service_update current_user now = (Inr final_service, db')
       \<and> find (\<lambda>s. svc_id s = sid) (services db') = Some final_service
       \<and> svc_status_history final_service =
           (case su_status service_update of
              None \<Rightarrow> svc_status_history existing_service
            | Some incoming \<Rightarrow>
                if incoming \<noteq> svc_status existing_service
                then svc_status_history existing_service
                       @ [\<lparr>old_status = Some (svc_status existing_service),
                            new_status = incoming, timestamp = now\<rparr>]
                else svc_status_history existing_service)))
   \<and> (\<forall>e. fst (update_service db sid service_update current_user now) = Inl e \<longrightarrow>
          snd (update_service db sid service_update current_user now) = db)"
proof (intro conjI impI allI)
  assume a: "find (\<lambda>s. svc_id s = sid) (services db) = Some existing_service
    \<and> get_organization_if_member (svc_organization_id existing_service) current_user db
        = Inr organization"
  show "\<exists>final_service db'.
       update_service db sid service_update current_user now = (Inr final_service, db')
       \<and> find (\<lambda>s. svc_id s = sid) (services db') = Some final_service
       \<and> svc_status_history final_service =
           (case su_status service_update of
              None \<Rightarrow> svc_status_history existing_service
            | Some incoming \<Rightarrow>
                if incoming \<noteq> svc_status existing_service
                then svc_status_history existing_service
                       @ [\<lparr>old_status = Some (svc_status existing_service),
                            new_status = incoming, timestamp = now\<rparr>]
                else svc_status_history existing_service)"
    using a
    by (auto simp add: update_service_def Let_def find_update_one split: option.splits)
next
  fix e
  assume "fst (update_service db sid service_update current_user now) = Inl e"
  then show "snd (update_service db sid service_update current_user now) = db"
    by (rule update_service_error_keeps_db)
qed

lemma example_service_lookup:
  "find (\<lambda>s. svc_id s = 7) (services example_db) = Some example_service
   \<and> get_organization_if_member (svc_organization_id example_service) example_user example_db
       = Inr example_org"
  by (simp add: get_organization_if_member_def example_db_def example_service_def
      example_org_def example_user_def)

lemma example_outsider_refused:
  "fst (update_service example_db 7 \<lparr>su_name = None, su_status = Some OPERATIONAL\<rparr>
          example_outsider example_now) = Inl (HTTPException 403)"
  by (simp add: update_service_def get_organization_if_member_def example_db_def
      example_service_def example_org_def example_outsider_def)

theorem update_service_history_witness:
  "(\<exists>final_service db'.
      update_service example_db 7 \<lparr>su_name = None, su_status = Some OPERATIONAL\<rparr>
        example_user example_now = (Inr final_service, db')
      \<and> svc_status_history final_service =
          [\<lparr>old_status = Some MAJOR_OUTAGE, new_status = OPERATIONAL, timestamp = example_now\<rparr>])
   \<and> snd (update_service example_db 7 \<lparr>su_name = None, su_status = Some OPERATIONAL\<rparr>
            example_outsider example_now) = example_db"
proof -
  from update_service_history [of 7 example_db example_service example_user example_org
      "\<lparr>su_name = None, su_status = Some OPERATIONAL\<rparr>" example_now]
    example_service_lookup
  have a: "\<exists>final_service db'.
      update_service example_db 7 \<lparr>su_name = None, su_status = Some OPERATIONAL\<rparr>
        example_user example_now = (Inr final_service, db')
      \<and> svc_status_history final_service =
          [\<lparr>old_status = Some MAJOR_OUTAGE, new_status = OPERATIONAL, timestamp = example_now\<rparr>]"
    by (auto simp add: example_service_def)
  from update_service_history [of 7 example_db example_service example_outsider example_org
      "\<lparr>su_name = None, su_status = Some OPERATIONAL\<rparr>" example_now]
    example_outsider_refused
  have b: "snd (update_service example_db 7 \<lparr>su_name = None, su_status = Some OPERATIONAL\<rparr>
            example_outsider example_now) = example_db"
    by blast
  from a b show ?thesis by blast
qed

section \<open>Updates with an empty payload\<close>

text \<open>
  Claim C8, as the code has it. \<open>update_organization\<close> and \<open>update_team\<close> answer a
  payload without fields with 400 and leave the store as it was. \<open>update_service\<close> leaves
  the store as it was too, but answers with the existing service, not with an error,
  once the service is found and the caller belongs to its organization.
\<close>

theorem empty_update_payload:
  "(ou_name org_in = None \<and> ou_logo_url org_in = None \<longrightarrow>
      update_organization db oid org_in now = (Inl (HTTPException 400), db))
   \<and> (tu_name team_in = None \<and> tu_description team_in = None \<longrightarrow>
      update_team db tid team_in now = (Inl (HTTPException 400), db))
   \<and> (su_name service_update = None \<and> su_status service_update = None \<longrightarrow>
      snd (update_service db sid service_update current_user now) = db
      \<and> (\<forall>existing_service organization.
            find (\<lambda>s. svc_id s = sid) (services db) = Some existing_service
            \<and> get_organization_if_member (svc_organization_id existing_service) current_user db
                = Inr organization
            \<longrightarrow> fst (update_service db sid service_update current_user now)
                  = Inr existing_service))"
  by (simp add: update_organization_def update_team_def update_service_def
      split: option.splits sum.splits)

theorem empty_update_payload_witness:
  "update_organization example_db 1 \<lparr>ou_name = None, ou_logo_url = None\<rparr> example_now
     = (Inl (HTTPException 400), example_db)
   \<and> update_team example_db 20 \<lparr>tu_name = None, tu_description = None\<rparr> example_now
     = (Inl (HTTPException 400), example_db)
   \<and> update_service example_db 7 \<lparr>su_name = None, su_status = None\<rparr> example_user example_now
     = (Inr example_service, example_db)"
  using empty_update_payload [of "\<lparr>ou_name = None, ou_logo_url = None\<rparr>" example_db 1 example_now
      "\<lparr>tu_name = None, tu_description = None\<rparr>" 20
      "\<lparr>su_name = None, su_status = None\<rparr>" 7 example_user]
    example_service_lookup
  by (simp add: prod_eq_iff)

text \<open>
  The claim as written fails for \<open>update_service\<close>: the empty payload is answered with
  the service.
\<close>

theorem empty_update_service_counterexample:
  "fst (update_service example_db 7 \<lparr>su_name = None, su_status = None\<rparr> example_user example_now)
     = Inr example_service"
  by (simp add: update_service_def get_organization_if_member_def example_db_def
      example_service_def example_org_def example_user_def)

section \<open>Unsubscribing\<close>

text \<open>
  Claim C10. The response of \<open>unsubscribe_from_updates\<close> is always status 200 with the
  message "Your request has been processed.", so any two calls, whatever the store, the
  slug and the address, get the same response.
\<close>

theorem unsubscribe_response_fixed:
  "fst (unsubscribe_from_updates db slug request_email)
     = \<lparr>status_code = 200, message = ''Your request has been processed.''\<rparr>
   \<and> fst (unsubscribe_from_updates db slug request_email)
     = fst (unsubscribe_from_updates db' slug' request_email')"
  by (simp add: unsubscribe_from_updates_def split: option.splits)

text \<open>
  The store does tell the two cases apart: the subscription of the sample store is deleted
  under the organization's slug and kept under an unknown one.
\<close>

lemma unsubscribe_effect_differs:
  "subscribers (snd (unsubscribe_from_updates example_db ''acme'' ''eve@else.test'')) = []
   \<and> snd (unsubscribe_from_updates example_db ''nowhere'' ''eve@else.test'') = example_db"
  by (simp add: unsubscribe_from_updates_def example_db_def example_org_def)

end
